theory Spec2Isabelle
  imports Main
begin

section \<open>Packets and inbound frames\<close>

text \<open>
  Modelled from the spec: the packet union \<open>SignalingPacketTypes\<close> of \<open>types.ts\<close>, which
  is not part of the sources at hand. The variants and their fields are the ones the spec
  lists (\<open>hello{game, id?}\<close>, \<open>welcome{id}\<close>, \<open>joined{lobby}\<close>, \<open>connect{id, polite}\<close>,
  \<open>disconnect{id}\<close>, \<open>candidate{source, ...}\<close>, \<open>description{source, ...}\<close>,
  \<open>credentials{...}\<close>, \<open>event{game, lobby?, peer, category, action, data?}\<close>,
  \<open>error{error}\<close>); a negotiation payload is kept as one opaque string. \<open>Unlisted t\<close> is a
  JSON object whose \<open>type\<close> property is the string \<open>t\<close> and which is none of the variants
  above: the cast in \<open>JSON.parse(data) as SignalingPacketTypes\<close> is unchecked, so such an
  object reaches the \<open>switch\<close> like any other.
\<close>

datatype packet =
    Error_packet string
  | Welcome string
  | Joined string
  | Connect string bool
  | Disconnect string
  | Candidate string string
  | Description string string
  | Credentials string
  | Hello string "string option"
  | Event string "string option" string string string "(string \<times> string) list option"
  | Unlisted string

text \<open>The discriminant \<open>packet.type\<close>.\<close>

fun packet_type :: "packet \<Rightarrow> string" where
  "packet_type (Error_packet _) = ''error''"
| "packet_type (Welcome _) = ''welcome''"
| "packet_type (Joined _) = ''joined''"
| "packet_type (Connect _ _) = ''connect''"
| "packet_type (Disconnect _) = ''disconnect''"
| "packet_type (Candidate _ _) = ''candidate''"
| "packet_type (Description _ _) = ''description''"
| "packet_type (Credentials _) = ''credentials''"
| "packet_type (Hello _ _) = ''hello''"
| "packet_type (Event _ _ _ _ _ _) = ''event''"
| "packet_type (Unlisted t) = t"

text \<open>The \<open>case\<close> labels of the \<open>switch\<close> in \<open>handleSignalingMessage\<close>.\<close>

definition handled_types :: "string list" where
  "handled_types = [''error'', ''welcome'', ''joined'', ''connect'', ''disconnect'',
     ''candidate'', ''description'', ''credentials'']"

text \<open>
  An inbound text frame, as \<open>JSON.parse\<close> sees it: text that is not JSON (a \<open>SyntaxError\<close>
  is thrown), the JSON value \<open>null\<close> (reading \<open>packet.type\<close> throws a \<open>TypeError\<close>), or a
  JSON object read as a packet. JSON values without a \<open>type\<close> property behave as an
  \<open>Unlisted\<close> packet does (no \<open>case\<close> label matches) and are not listed separately.
\<close>

datatype frame = Not_json | Json_null | Json packet

text \<open>What a \<open>throw\<close> or a rejected promise carries.\<close>

datatype thrown = SyntaxError | TypeError | Error string | Rejection string

section \<open>Errors, events and effects\<close>

datatype error_type = Unknown_error | Socket_error | Server_error

text \<open>
  The \<open>message\<close> of a \<open>SignalingError\<close> is a string, or (in the \<open>catch\<close> block, through
  \<open>e as string\<close>) the caught value itself. The optional raw \<open>Event\<close> is left out.
\<close>

datatype message = Text string | Caught thrown

datatype signaling_error = SignalingError error_type message

datatype network_event =
    Signalingerror signaling_error
  | Failed
  | Ready
  | Signalingreconnected
  | Lobby string

text \<open>Everything the session does to the outside, in the order it does it.\<close>

datatype effect =
    Network_emit network_event
  | Emit_credentials packet
  | Console_error signaling_error
  | Network_log "string list"
  | Prefetch_TURN_credentials
  | Add_peer string bool
  | Peer_message string packet
  | Peer_close string
  | New_WebSocket string
  | Ws_send packet
  | Ws_close

section \<open>The session state\<close>

datatype ready_state = CONNECTING | OPEN | CLOSING | CLOSED

text \<open>
  A pending \<open>setTimeout\<close> callback: the reconnect (with the bound of its delay, which is
  drawn from \<open>[0, bound)\<close> by \<open>Math.random() * 100 * reconnectAttempt\<close>), or the deferred
  send of an analytics event.
\<close>

datatype timer =
    Connect_timer nat
  | Event_timer string string "(string \<times> string) list option"

text \<open>
  Modelled from the spec: the peer object of \<open>peer.ts\<close>, known to the session only through
  \<open>peer.deliver(packet)\<close> (\<open>_onSignalingMessage\<close>) and \<open>peer.close()\<close>. It keeps its
  politeness role, the packets delivered to it in order, and whether it was asked to close.
\<close>

record peer =
  polite :: bool
  inbox :: "packet list"
  peer_closed :: bool

text \<open>
  The fields of \<open>Signaling\<close>, then what the session reads from its \<open>Network\<close>
  (\<open>gameID\<close>, \<open>id\<close>, \<open>closing\<close>, \<open>listenerCount('signalingerror')\<close>), the socket held in
  \<open>this.ws\<close> (its \<open>readyState\<close> and whether the four listeners of \<open>connect\<close> are attached),
  the pending timers and the effects so far.

  The listeners of \<open>connect\<close> close over the socket they were created with. The state keeps
  one socket, the one in \<open>this.ws\<close>: in the runs below a new socket is created only after
  the listeners of the previous one were removed, so the two are the same socket whenever
  a listener runs.
\<close>

record signaling =
  url :: string
  ws :: ready_state
  listening :: bool
  reconnectAttempt :: nat
  reconnecting :: bool
  receivedID :: "string option"
  currentLobby :: "string option"
  connections :: "string \<rightharpoonup> peer"
  replayQueue :: "string \<rightharpoonup> packet list"
  gameID :: string
  network_id :: string
  closing :: bool
  listeners :: nat
  timers :: "timer list"
  trace :: "effect list"

text \<open>
  How the awaited collaborator calls end: \<open>None\<close> when the promise resolves, \<open>Some r\<close>
  when it rejects with reason \<open>r\<close>.
\<close>

record collaborators =
  add_peer_fails :: "string \<Rightarrow> bool \<Rightarrow> string option"
  deliver_fails :: "string \<Rightarrow> packet \<Rightarrow> string option"

text \<open>
  How a block of statements ends: normally, or by a \<open>throw\<close>; either way with the state
  reached so far (nothing is rolled back).
\<close>

datatype 'a outcome = Done 'a | Threw thrown 'a

section \<open>Effects\<close>

definition does :: "effect \<Rightarrow> signaling \<Rightarrow> signaling" where
  "does e s = s\<lparr>trace := trace s @ [e]\<rparr>"

definition emit :: "network_event \<Rightarrow> signaling \<Rightarrow> signaling" where
  "emit ev s = does (Network_emit ev) s"

definition log :: "string list \<Rightarrow> signaling \<Rightarrow> signaling" where
  "log args s = does (Network_log args) s"

text \<open>
  The three statements the source repeats in \<open>onError\<close>, \<open>onClose\<close> and the \<open>'error'\<close> case:
  emit the error, and print it when nobody listens.
\<close>

definition emit_or_print :: "signaling_error \<Rightarrow> signaling \<Rightarrow> signaling" where
  "emit_or_print err s =
     (let s' = emit (Signalingerror err) s
      in if listeners s' = 0 then does (Console_error err) s' else s')"

section \<open>Connection lifecycle\<close>

definition send :: "packet \<Rightarrow> signaling \<Rightarrow> signaling" where
  "send p s =
     (if ws s = CONNECTING \<or> ws s = OPEN
      then does (Ws_send p) (log [''sending signaling packet:'', packet_type p] s)
      else s)"

text \<open>\<open>event\<close> only schedules; the send happens when the timer fires.\<close>

definition event :: "string \<Rightarrow> string \<Rightarrow> (string \<times> string) list option \<Rightarrow> signaling \<Rightarrow> signaling" where
  "event category action data s = s\<lparr>timers := timers s @ [Event_timer category action data]\<rparr>"

definition event_fires :: "string \<Rightarrow> string \<Rightarrow> (string \<times> string) list option \<Rightarrow> signaling \<Rightarrow> signaling" where
  "event_fires category action data s =
     send (Event (gameID s) (currentLobby s) (network_id s) category action data) s"

text \<open>\<open>connect\<close> with the assignment \<open>this.ws = ...\<close> both of its callers make.\<close>

definition connect :: "signaling \<Rightarrow> signaling" where
  "connect s = (does (New_WebSocket (url s)) s)\<lparr>ws := CONNECTING, listening := True\<rparr>"

definition reconnect :: "signaling \<Rightarrow> signaling" where
  "reconnect s =
     (if reconnecting s \<or> closing s then s
      else if reconnectAttempt s > 42 then
        emit (Signalingerror (SignalingError Socket_error
               (Text ''giving up on reconnecting to signaling server'')))
          (emit Failed s)
      else
        (let s1 = event ''signaling'' ''attempt-reconnect'' None s;
             s2 = s1\<lparr>reconnecting := True\<rparr>;
             s3 = s2\<lparr>timers := timers s2 @ [Connect_timer (100 * reconnectAttempt s2)]\<rparr>
         in s3\<lparr>reconnectAttempt := reconnectAttempt s3 + 1\<rparr>))"

definition onOpen :: "signaling \<Rightarrow> signaling" where
  "onOpen s = send (Hello (gameID s) (receivedID s)) (s\<lparr>reconnectAttempt := 0, reconnecting := False\<rparr>)"

definition onError :: "signaling \<Rightarrow> signaling" where
  "onError s =
     (let s1 = emit_or_print (SignalingError Socket_error (Text ''unexpected websocket error'')) s
      in if ws s1 = CLOSED then reconnect (s1\<lparr>reconnecting := False\<rparr>) else s1)"

definition onClose :: "signaling \<Rightarrow> signaling" where
  "onClose s =
     (let s1 = (if \<not> closing s
                then emit_or_print (SignalingError Socket_error (Text ''signaling socket closed'')) s
                else s)
      in reconnect (s1\<lparr>listening := False\<rparr>))"

definition close :: "signaling \<Rightarrow> signaling" where
  "close s = does Ws_close s"

section \<open>The packet dispatcher\<close>

text \<open>
  Modelled from the spec: \<open>Network._addPeer\<close> (\<open>PeerRegistry.addPeer(id, polite) ->
  awaitable\<close>), which is not part of the sources at hand. When its promise resolves, a new
  peer with the given politeness role is registered under \<open>id\<close> in the map the session
  holds as \<open>connections\<close>; when it rejects, nothing is registered.
\<close>

definition addPeer :: "collaborators \<Rightarrow> string \<Rightarrow> bool \<Rightarrow> signaling \<Rightarrow> signaling outcome" where
  "addPeer env i pol s =
     (let s' = does (Add_peer i pol) s
      in case add_peer_fails env i pol of
           Some r \<Rightarrow> Threw (Rejection r) s'
         | None \<Rightarrow> Done (s'\<lparr>connections := (connections s')(i \<mapsto>
                      \<lparr>polite = pol, inbox = [], peer_closed = False\<rparr>)\<rparr>))"

text \<open>
  \<open>await this.connections.get(i)?._onSignalingMessage(p)\<close>: nothing happens when no peer is
  registered under \<open>i\<close>. Modelled from the spec: \<open>Peer._onSignalingMessage\<close>
  (\<open>peer.deliver(packet) -> awaitable\<close>), which appends the packet to what the peer has
  received when its promise resolves.
\<close>

definition deliver :: "collaborators \<Rightarrow> string \<Rightarrow> packet \<Rightarrow> signaling \<Rightarrow> signaling outcome" where
  "deliver env i p s =
     (case connections s i of
        None \<Rightarrow> Done s
      | Some pr \<Rightarrow>
          (let s' = does (Peer_message i p) s
           in case deliver_fails env i p of
                Some r \<Rightarrow> Threw (Rejection r) s'
              | None \<Rightarrow> Done (s'\<lparr>connections := (connections s')(i \<mapsto>
                           pr\<lparr>inbox := inbox pr @ [p]\<rparr>)\<rparr>)))"

text \<open>
  Modelled from the spec: \<open>Peer.close\<close> (\<open>peer.close()\<close>, "request the peer object close
  itself").
\<close>

definition close_peer :: "string \<Rightarrow> signaling \<Rightarrow> signaling" where
  "close_peer i s =
     (case connections s i of
        None \<Rightarrow> s
      | Some pr \<Rightarrow> (does (Peer_close i) s)\<lparr>connections := (connections s)(i \<mapsto>
                     pr\<lparr>peer_closed := True\<rparr>)\<rparr>)"

text \<open>\<open>this.replayQueue.get(i) ?? []\<close>.\<close>

definition queued :: "signaling \<Rightarrow> string \<Rightarrow> packet list" where
  "queued s i = (case replayQueue s i of None \<Rightarrow> [] | Some q \<Rightarrow> q)"

text \<open>The \<open>for ... of\<close> loop of the \<open>'connect'\<close> case: a rejected delivery ends it.\<close>

fun flush :: "collaborators \<Rightarrow> string \<Rightarrow> packet list \<Rightarrow> signaling \<Rightarrow> signaling outcome" where
  "flush env i [] s = Done s"
| "flush env i (p # ps) s =
     (case deliver env i p s of
        Threw e s' \<Rightarrow> Threw e s'
      | Done s' \<Rightarrow> flush env i ps s')"

definition negotiation :: "collaborators \<Rightarrow> string \<Rightarrow> packet \<Rightarrow> signaling \<Rightarrow> signaling outcome" where
  "negotiation env source p s =
     (if connections s source \<noteq> None then deliver env source p s
      else Done (s\<lparr>replayQueue := (replayQueue s)(source \<mapsto> queued s source @ [p])\<rparr>))"

text \<open>
  The \<open>switch\<close>. A \<open>return\<close> inside it ends the handler normally. Here an \<open>await\<close> runs the
  awaited call to its end, resolved or rejected, before the next statement: this is the
  handler of one frame run to its end. What happens when a frame arrives while a handler
  waits is the matter of a later section.
\<close>

fun dispatch :: "collaborators \<Rightarrow> packet \<Rightarrow> signaling \<Rightarrow> signaling outcome" where
  "dispatch env (Error_packet e) s = Done (emit_or_print (SignalingError Server_error (Text e)) s)"
| "dispatch env (Welcome i) s =
     (if receivedID s \<noteq> None then Done (emit Signalingreconnected (log [''signaling reconnected''] s))
      else if i = '''' then Threw (Error ''missing id on received welcome packet'') s
      else Done (does Prefetch_TURN_credentials (emit Ready (s\<lparr>receivedID := Some i\<rparr>))))"
| "dispatch env (Joined l) s =
     (if l = '''' then Threw (Error ''missing lobby on received connect packet'') s
      else Done (emit (Lobby l) (s\<lparr>currentLobby := Some l\<rparr>)))"
| "dispatch env (Connect i pol) s =
     (if receivedID s = Some i then Done s
      else case addPeer env i pol s of
             Threw e s' \<Rightarrow> Threw e s'
           | Done s1 \<Rightarrow>
               (case flush env i (queued s1 i) s1 of
                  Threw e s' \<Rightarrow> Threw e s'
                | Done s2 \<Rightarrow> Done (s2\<lparr>replayQueue := (replayQueue s2)(i := None)\<rparr>)))"
| "dispatch env (Disconnect i) s =
     (if connections s i \<noteq> None then Done (close_peer i s) else Done s)"
| "dispatch env (Candidate source x) s = negotiation env source (Candidate source x) s"
| "dispatch env (Description source x) s = negotiation env source (Description source x) s"
| "dispatch env (Credentials x) s = Done (does (Emit_credentials (Credentials x)) s)"
| "dispatch env (Hello g i) s = Done s"
| "dispatch env (Event g l p c a d) s = Done s"
| "dispatch env (Unlisted t) s = Done s"

text \<open>The body of the \<open>try\<close> block.\<close>

fun try_block :: "collaborators \<Rightarrow> frame \<Rightarrow> signaling \<Rightarrow> signaling outcome" where
  "try_block env Not_json s = Threw SyntaxError s"
| "try_block env Json_null s = Threw TypeError s"
| "try_block env (Json p) s = dispatch env p (log [''signaling packet received:'', packet_type p] s)"

text \<open>
  \<open>handleSignalingMessage\<close>: the promise it returns resolves (\<open>Done\<close>) or rejects
  (\<open>Threw\<close>).
\<close>

definition handleSignalingMessage :: "collaborators \<Rightarrow> frame \<Rightarrow> signaling \<Rightarrow> signaling outcome" where
  "handleSignalingMessage env fr s =
     (case try_block env fr s of
        Done s' \<Rightarrow> Done s'
      | Threw e s' \<Rightarrow> Done (emit (Signalingerror (SignalingError Unknown_error (Caught e))) s'))"

text \<open>\<open>onMessage\<close>: \<open>.catch(_ => {})\<close> drops a rejection.\<close>

definition onMessage :: "collaborators \<Rightarrow> frame \<Rightarrow> signaling \<Rightarrow> signaling" where
  "onMessage env fr s = (case handleSignalingMessage env fr s of Done s' \<Rightarrow> s' | Threw e s' \<Rightarrow> s')"

section \<open>Runs of the session\<close>

text \<open>The constructor: the fields' initial values, then \<open>this.ws = this.connect()\<close>.\<close>

definition constructor :: "string \<Rightarrow> string \<Rightarrow> bool \<Rightarrow> nat \<Rightarrow> (string \<rightharpoonup> peer) \<Rightarrow> string \<Rightarrow> signaling" where
  "constructor game nid cl ls peers u =
     connect \<lparr>url = u, ws = CLOSED, listening = False, reconnectAttempt = 0,
       reconnecting = False, receivedID = None, currentLobby = None, connections = peers,
       replayQueue = Map.empty, gameID = game, network_id = nid, closing = cl,
       listeners = ls, timers = [], trace = []\<rparr>"

text \<open>
  What can happen to a session: the events of its socket, a timer firing, and the calls
  of the owning application. A socket sets its \<open>readyState\<close> before it fires an event. A
  connection that fails fires \<open>error\<close> with \<open>readyState\<close> already \<open>CLOSED\<close> and then
  \<open>close\<close>, in one task (\<open>On_failure\<close>); \<open>On_error\<close> is an \<open>error\<close> event on a
  socket that stays as it is, \<open>On_close\<close> a \<open>close\<close> event with no \<open>error\<close> before it.
\<close>

datatype happening =
    On_open
  | On_error
  | On_failure
  | On_close
  | On_message frame
  | Timeout nat
  | App_close
  | App_closing
  | App_listens

text \<open>The \<open>k\<close>-th pending timer fires; a timer that is not pending does not.\<close>

definition fire :: "nat \<Rightarrow> signaling \<Rightarrow> signaling" where
  "fire k s =
     (if k < length (timers s) then
        (let s' = s\<lparr>timers := take k (timers s) @ drop (Suc k) (timers s)\<rparr>
         in case timers s ! k of
              Connect_timer d \<Rightarrow> connect s'
            | Event_timer category action data \<Rightarrow> event_fires category action data s')
      else s)"

fun step :: "collaborators \<Rightarrow> happening \<Rightarrow> signaling \<Rightarrow> signaling" where
  "step env On_open s = onOpen (s\<lparr>ws := OPEN\<rparr>)"
| "step env On_error s = onError s"
| "step env On_failure s = onClose (onError (s\<lparr>ws := CLOSED\<rparr>))"
| "step env On_close s = onClose (s\<lparr>ws := CLOSED\<rparr>)"
| "step env (On_message fr) s = onMessage env fr s"
| "step env (Timeout k) s = fire k s"
| "step env App_close s = (close s)\<lparr>ws := (if ws s = CLOSED then CLOSED else CLOSING)\<rparr>"
| "step env App_closing s = s\<lparr>closing := True\<rparr>"
| "step env App_listens s = s\<lparr>listeners := listeners s + 1\<rparr>"

text \<open>
  A socket fires events only at listeners that are attached, and according to its state;
  a timer fires only while it is pending.
\<close>

fun enabled :: "signaling \<Rightarrow> happening \<Rightarrow> bool" where
  "enabled s On_open = (listening s \<and> ws s = CONNECTING)"
| "enabled s On_error = (listening s \<and> ws s \<noteq> CLOSED)"
| "enabled s On_failure = (listening s \<and> ws s \<noteq> CLOSED)"
| "enabled s On_close = (listening s \<and> ws s \<noteq> CLOSED)"
| "enabled s (On_message fr) = (listening s \<and> (ws s = OPEN \<or> ws s = CLOSING))"
| "enabled s (Timeout k) = (k < length (timers s))"
| "enabled s App_close = True"
| "enabled s App_closing = True"
| "enabled s App_listens = True"

fun run :: "collaborators \<Rightarrow> happening list \<Rightarrow> signaling \<Rightarrow> signaling option" where
  "run env [] s = Some s"
| "run env (h # hs) s = (if enabled s h then run env hs (step env h s) else None)"

text \<open>
  The frames of a list dispatched one after the other, the handler of each run to its end
  before the next frame: what happens when no frame arrives while a handler waits at an
  \<open>await\<close> (the runs called \<open>undisturbed\<close> below).
\<close>

fun dispatch_all :: "collaborators \<Rightarrow> frame list \<Rightarrow> signaling \<Rightarrow> signaling" where
  "dispatch_all env [] s = s"
| "dispatch_all env (fr # frs) s = dispatch_all env frs (onMessage env fr s)"

fun is_connect_timer :: "timer \<Rightarrow> bool" where
  "is_connect_timer (Connect_timer d) = True"
| "is_connect_timer (Event_timer category action data) = False"

text \<open>The reconnects that are pending: scheduled and not yet fired.\<close>

definition pending_reconnects :: "signaling \<Rightarrow> nat" where
  "pending_reconnects s = length (filter is_connect_timer (timers s))"

section \<open>Frames that arrive while a handler waits\<close>














section \<open>Vocabulary of the properties\<close>

fun state_of :: "'a outcome \<Rightarrow> 'a" where
  "state_of (Done s) = s"
| "state_of (Threw e s) = s"

fun threw :: "'a outcome \<Rightarrow> bool" where
  "threw (Done s) = False"
| "threw (Threw e s) = True"

text \<open>What the dispatcher never writes: the socket, the reconnect state, the timers.\<close>

definition lifecycle :: "signaling \<Rightarrow> string \<times> ready_state \<times> bool \<times> nat \<times> bool \<times> string \<times> string \<times> bool \<times> nat \<times> timer list" where
  "lifecycle s = (url s, ws s, listening s, reconnectAttempt s, reconnecting s, gameID s,
     network_id s, closing s, listeners s, timers s)"

fun is_unknown_error :: "effect \<Rightarrow> bool" where
  "is_unknown_error (Network_emit (Signalingerror (SignalingError Unknown_error m))) = True"
| "is_unknown_error e = False"

text \<open>
  \<open>try_effects s s'\<close>: the effects of \<open>s'\<close> are those of \<open>s\<close> and then some, none of them an
  \<open>unknown-error\<close> event or a \<open>ws.close()\<close>.
\<close>

definition try_effects :: "signaling \<Rightarrow> signaling \<Rightarrow> bool" where
  "try_effects s s' =
     (\<exists>es. trace s' = trace s @ es \<and> (\<forall>e\<in>set es. \<not> is_unknown_error e \<and> e \<noteq> Ws_close))"



definition failed_count :: "signaling \<Rightarrow> nat" where
  "failed_count s = count_list (trace s) (Network_emit Failed)"

text \<open>The effects of the three statements of \<open>emit_or_print\<close>.\<close>

definition printed :: "signaling \<Rightarrow> signaling_error \<Rightarrow> effect list" where
  "printed s err =
     (if listeners s = 0 then [Network_emit (Signalingerror err), Console_error err]
      else [Network_emit (Signalingerror err)])"

text \<open>
  \<open>settled\<close>: at most one reconnect is pending, and none while listeners are attached to the
  socket. \<open>about_to_fail\<close>: a socket is connecting, nothing is pending and \<open>failed\<close> was not
  emitted yet.
\<close>

definition settled :: "signaling \<Rightarrow> bool" where
  "settled s = (pending_reconnects s \<le> 1 \<and> (listening s \<longrightarrow> pending_reconnects s = 0))"

definition about_to_fail :: "signaling \<Rightarrow> bool" where
  "about_to_fail s = (listening s \<and> ws s = CONNECTING \<and> \<not> closing s \<and> timers s = [] \<and>
     failed_count s = 0)"

text \<open>
  \<open>n\<close> connection failures in a row, each followed by its two timers: the analytics event,
  then the reconnect.
\<close>

fun failures :: "nat \<Rightarrow> happening list" where
  "failures 0 = []"
| "failures (Suc n) = On_failure # Timeout 0 # Timeout 0 # failures n"












text \<open>What the session holds about one peer identifier.\<close>

definition seen :: "string \<Rightarrow> signaling \<Rightarrow> (packet list \<times> bool) option \<times> packet list option" where
  "seen a s = (map_option (\<lambda>pr. (inbox pr, polite pr)) (connections s a), replayQueue s a)"

subsection \<open>Concrete sessions\<close>

text \<open>Collaborators whose promises always resolve, and ones whose deliveries reject.\<close>

definition quiet :: collaborators where
  "quiet = \<lparr>add_peer_fails = (\<lambda>i pol. None), deliver_fails = (\<lambda>i p. None)\<rparr>"


text \<open>A session as the constructor leaves it: no peers, no error listener.\<close>

definition fresh :: signaling where
  "fresh = constructor ''game'' ''me'' False 0 Map.empty ''wss://signal''"

section \<open>The dispatcher and the lifecycle\<close>

subsection \<open>What the dispatcher leaves alone\<close>

lemma deliver_lifecycle: "lifecycle (state_of (deliver env i p s)) = lifecycle s"
  by (simp add: deliver_def lifecycle_def does_def Let_def split: option.splits)

lemma flush_lifecycle: "lifecycle (state_of (flush env i ps s)) = lifecycle s"
proof (induction ps arbitrary: s)
  case Nil
  then show ?case by simp
next
  case (Cons p ps)
  show ?case
  proof (cases "deliver env i p s")
    case (Done s')
    with Cons[of s'] deliver_lifecycle[of env i p s] show ?thesis by simp
  next
    case (Threw e s')
    with deliver_lifecycle[of env i p s] show ?thesis by simp
  qed
qed

lemma addPeer_lifecycle: "lifecycle (state_of (addPeer env i pol s)) = lifecycle s"
  by (simp add: addPeer_def lifecycle_def does_def Let_def split: option.splits)

lemma negotiation_lifecycle: "lifecycle (state_of (negotiation env i p s)) = lifecycle s"
  using deliver_lifecycle[of env i p s]
  by (simp add: negotiation_def) (simp add: lifecycle_def)

lemma dispatch_lifecycle: "lifecycle (state_of (dispatch env p s)) = lifecycle s"
proof (cases p)
  case (Connect i pol)
  show ?thesis
  proof (cases "addPeer env i pol s")
    case (Done s1)
    then have l1: "lifecycle s1 = lifecycle s" using addPeer_lifecycle[of env i pol s] by simp
    show ?thesis
    proof (cases "flush env i (queued s1 i) s1")
      case d2: (Done s2)
      then have "lifecycle s2 = lifecycle s1" using flush_lifecycle[of env i "queued s1 i" s1] by simp
      with l1 Done d2 Connect show ?thesis by (simp add: lifecycle_def)
    next
      case t2: (Threw e s2)
      then have "lifecycle s2 = lifecycle s1" using flush_lifecycle[of env i "queued s1 i" s1] by simp
      with l1 Done t2 Connect show ?thesis by (simp add: lifecycle_def)
    qed
  next
    case (Threw e s1)
    then have l1: "lifecycle s1 = lifecycle s" using addPeer_lifecycle[of env i pol s] by simp
    with Threw Connect show ?thesis by (simp add: lifecycle_def)
  qed
qed (simp_all add: negotiation_lifecycle, simp_all add: lifecycle_def emit_or_print_def emit_def log_def does_def close_peer_def Let_def split: option.splits)

lemma try_block_lifecycle: "lifecycle (state_of (try_block env fr s)) = lifecycle s"
proof (cases fr)
  case (Json p)
  then show ?thesis
    using dispatch_lifecycle[of env p "log [''signaling packet received:'', packet_type p] s"]
    by (simp add: lifecycle_def log_def does_def)
qed simp_all

lemma onMessage_lifecycle: "lifecycle (onMessage env fr s) = lifecycle s"
  using try_block_lifecycle[of env fr s]
  by (cases "try_block env fr s") (simp_all add: onMessage_def handleSignalingMessage_def lifecycle_def emit_def does_def)

subsection \<open>The effects of the try block\<close>

lemma try_effects_refl: "try_effects s s"
  by (simp add: try_effects_def)

lemma try_effects_trans: "try_effects s s' \<Longrightarrow> try_effects s' s'' \<Longrightarrow> try_effects s s''"
  by (fastforce simp: try_effects_def)

lemma try_effects_does: "\<not> is_unknown_error e \<Longrightarrow> e \<noteq> Ws_close \<Longrightarrow> trace s' = trace (does e s) \<Longrightarrow> try_effects s s'"
  by (simp add: try_effects_def does_def)

lemma deliver_try_effects: "try_effects s (state_of (deliver env i p s))"
  by (auto simp: deliver_def Let_def try_effects_refl split: option.splits intro!: try_effects_does[of "Peer_message i p"] simp: does_def)

lemma flush_try_effects: "try_effects s (state_of (flush env i ps s))"
proof (induction ps arbitrary: s)
  case Nil
  then show ?case by (simp add: try_effects_refl)
next
  case (Cons p ps)
  show ?case
  proof (cases "deliver env i p s")
    case (Done s')
    with Cons[of s'] deliver_try_effects[of s env i p] show ?thesis by (auto intro: try_effects_trans)
  next
    case (Threw e s')
    with deliver_try_effects[of s env i p] show ?thesis by simp
  qed
qed

lemma addPeer_try_effects: "try_effects s (state_of (addPeer env i pol s))"
  by (auto simp: addPeer_def Let_def split: option.splits intro!: try_effects_does[of "Add_peer i pol"] simp: does_def)

lemma negotiation_try_effects: "try_effects s (state_of (negotiation env i p s))"
  using deliver_try_effects[of s env i p]
  by (simp add: negotiation_def) (simp add: try_effects_def)

lemma emit_or_print_try_effects: "try_effects s (emit_or_print (SignalingError Server_error m) s)"
  by (simp add: try_effects_def emit_or_print_def emit_def does_def Let_def)

lemma dispatch_try_effects: "try_effects s (state_of (dispatch env p s))"
proof (cases p)
  case (Connect i pol)
  show ?thesis
  proof (cases "addPeer env i pol s")
    case (Done s1)
    then have l1: "try_effects s s1" using addPeer_try_effects[of s env i pol] by simp
    show ?thesis
    proof (cases "flush env i (queued s1 i) s1")
      case d2: (Done s2)
      then have "try_effects s1 s2" using flush_try_effects[of s1 env i "queued s1 i"] by simp
      with l1 have "try_effects s s2" by (rule try_effects_trans)
      with Done d2 Connect show ?thesis by (simp add: try_effects_def try_effects_refl)
    next
      case t2: (Threw e s2)
      then have "try_effects s1 s2" using flush_try_effects[of s1 env i "queued s1 i"] by simp
      with l1 have "try_effects s s2" by (rule try_effects_trans)
      with Done t2 Connect show ?thesis by (simp add: try_effects_def try_effects_refl)
    qed
  next
    case (Threw e s1)
    then have l1: "try_effects s s1" using addPeer_try_effects[of s env i pol] by simp
    with Threw Connect show ?thesis by (simp add: try_effects_refl)
  qed
qed (simp_all add: negotiation_try_effects emit_or_print_try_effects try_effects_refl, simp_all add: try_effects_def emit_def log_def does_def close_peer_def Let_def split: option.splits)

lemma try_block_try_effects: "try_effects s (state_of (try_block env fr s))"
proof (cases fr)
  case (Json p)
  have "try_effects s (log [''signaling packet received:'', packet_type p] s)"
    by (simp add: try_effects_def log_def does_def)
  with dispatch_try_effects[of "log [''signaling packet received:'', packet_type p] s" env p] Json
  show ?thesis by (auto intro: try_effects_trans)
qed (simp_all add: try_effects_refl)

section \<open>Faults of a single frame\<close>

text \<open>
  C6. Whatever the frame and however the collaborators' promises end,
  \<open>handleSignalingMessage\<close> resolves: it never rejects, so nothing is thrown out of
  \<open>onMessage\<close>. The effects it adds hold exactly one \<open>unknown-error\<close> event when the
  \<open>try\<close> block threw (a \<open>SyntaxError\<close> for text that is not JSON, a \<open>TypeError\<close>, an
  \<open>Error\<close> of the dispatcher, a rejected promise) and none when it did not; \<open>ws.close()\<close>
  is never called, the socket and its listeners stay as they were, and a further frame
  \<open>fr'\<close> can be dispatched afterwards whenever this one could.
\<close>

theorem frame_faults_are_contained:
  "\<exists>s' es. handleSignalingMessage env fr s = Done s' \<and> onMessage env fr s = s' \<and>
     trace s' = trace s @ es \<and>
     length (filter is_unknown_error es) = (if threw (try_block env fr s) then 1 else 0) \<and>
     Ws_close \<notin> set es \<and> ws s' = ws s \<and> listening s' = listening s \<and>
     (enabled s (On_message fr) \<longrightarrow> enabled s' (On_message fr'))"
proof -
  from try_block_try_effects[of s env fr] obtain es where
    es: "trace (state_of (try_block env fr s)) = trace s @ es"
      "\<forall>e\<in>set es. \<not> is_unknown_error e \<and> e \<noteq> Ws_close"
    by (auto simp: try_effects_def)
  then have none: "filter is_unknown_error es = []" "Ws_close \<notin> set es"
    by (auto simp: filter_empty_conv)
  have lc: "lifecycle (state_of (try_block env fr s)) = lifecycle s"
    by (rule try_block_lifecycle)
  show ?thesis
  proof (cases "try_block env fr s")
    case (Done s')
    with es none lc show ?thesis
      by (simp add: handleSignalingMessage_def onMessage_def lifecycle_def)
  next
    case (Threw e s')
    with es none lc show ?thesis
      by (simp add: handleSignalingMessage_def onMessage_def lifecycle_def emit_def does_def)
  qed
qed

theorem frame_faults_are_contained_witness:
  "enabled (fresh\<lparr>ws := OPEN\<rparr>) (On_message Not_json) \<and>
   threw (try_block quiet Not_json (fresh\<lparr>ws := OPEN\<rparr>)) \<and>
   enabled (onMessage quiet Not_json (fresh\<lparr>ws := OPEN\<rparr>)) (On_message Json_null)"
proof -
  have en: "enabled (fresh\<lparr>ws := OPEN\<rparr>) (On_message Not_json)"
    by (simp add: fresh_def constructor_def connect_def does_def)
  with frame_faults_are_contained[of quiet Not_json "fresh\<lparr>ws := OPEN\<rparr>" Json_null]
  have "enabled (onMessage quiet Not_json (fresh\<lparr>ws := OPEN\<rparr>)) (On_message Json_null)"
    by auto
  with en show ?thesis by simp
qed

text \<open>
  C5. A \<open>welcome\<close> packet with the empty id, dispatched while \<open>receivedID\<close> is unset, and a
  \<open>joined\<close> packet with the empty lobby each end with the state they started from, but for
  two more effects: the log line of the dispatcher and one \<open>unknown-error\<close> event.
  \<open>receivedID\<close>, \<open>currentLobby\<close>, the replay queue and the attempt counter are unchanged.
\<close>

theorem empty_id_or_lobby_is_unknown_error:
  "(receivedID s = None \<longrightarrow>
      handleSignalingMessage env (Json (Welcome '''')) s =
        Done (s\<lparr>trace := trace s @
          [Network_log [''signaling packet received:'', ''welcome''],
           Network_emit (Signalingerror (SignalingError Unknown_error
             (Caught (Error ''missing id on received welcome packet''))))]\<rparr>)) \<and>
   handleSignalingMessage env (Json (Joined '''')) s =
     Done (s\<lparr>trace := trace s @
       [Network_log [''signaling packet received:'', ''joined''],
        Network_emit (Signalingerror (SignalingError Unknown_error
          (Caught (Error ''missing lobby on received connect packet''))))]\<rparr>)"
  by (simp add: handleSignalingMessage_def log_def emit_def does_def)

theorem empty_id_or_lobby_is_unknown_error_witness:
  "receivedID fresh = None \<and>
   handleSignalingMessage quiet (Json (Welcome '''')) fresh =
     Done (fresh\<lparr>trace :=
       [New_WebSocket ''wss://signal'',
        Network_log [''signaling packet received:'', ''welcome''],
        Network_emit (Signalingerror (SignalingError Unknown_error
          (Caught (Error ''missing id on received welcome packet''))))]\<rparr>)"
  using empty_id_or_lobby_is_unknown_error[of fresh quiet]
  by (simp add: fresh_def constructor_def connect_def does_def)

section \<open>Packets the dispatcher ignores\<close>

text \<open>
  C8. A \<open>connect\<close> packet whose id is the session's own \<open>receivedID\<close> only leaves the log
  line of the dispatcher: no peer is added, the replay queue is neither flushed nor
  changed, nothing is emitted.
\<close>

theorem connect_to_self_is_skipped:
  "receivedID s = Some i \<Longrightarrow>
     handleSignalingMessage env (Json (Connect i pol)) s =
       Done (s\<lparr>trace := trace s @ [Network_log [''signaling packet received:'', ''connect'']]\<rparr>)"
  by (simp add: handleSignalingMessage_def log_def does_def)

theorem connect_to_self_is_skipped_witness:
  "receivedID (fresh\<lparr>receivedID := Some ''me''\<rparr>) = Some ''me'' \<and>
   handleSignalingMessage quiet (Json (Connect ''me'' True)) (fresh\<lparr>receivedID := Some ''me''\<rparr>) =
     Done (fresh\<lparr>receivedID := Some ''me'', trace := [New_WebSocket ''wss://signal'',
       Network_log [''signaling packet received:'', ''connect'']]\<rparr>)"
  using connect_to_self_is_skipped[of "fresh\<lparr>receivedID := Some ''me''\<rparr>" "''me''" quiet True]
  by (simp add: fresh_def constructor_def connect_def does_def)

text \<open>
  C10. A \<open>disconnect\<close> packet whose id is not in the peer registry only leaves the log
  line of the dispatcher: no peer is closed, no error is emitted, and \<open>receivedID\<close>,
  \<open>currentLobby\<close> and the replay queue are unchanged.
\<close>

theorem disconnect_of_unknown_peer_is_a_no_op:
  "connections s i = None \<Longrightarrow>
     handleSignalingMessage env (Json (Disconnect i)) s =
       Done (s\<lparr>trace := trace s @ [Network_log [''signaling packet received:'', ''disconnect'']]\<rparr>)"
  by (simp add: handleSignalingMessage_def log_def does_def)

theorem disconnect_of_unknown_peer_is_a_no_op_witness:
  "connections fresh ''Q'' = None \<and>
   handleSignalingMessage quiet (Json (Disconnect ''Q'')) fresh =
     Done (fresh\<lparr>trace := [New_WebSocket ''wss://signal'',
       Network_log [''signaling packet received:'', ''disconnect'']]\<rparr>)"
  using disconnect_of_unknown_peer_is_a_no_op[of fresh "''Q''" quiet]
  by (simp add: fresh_def constructor_def connect_def does_def)

text \<open>
  C7, as the code has it. The \<open>switch\<close> has no \<open>default\<close> branch: a frame that is valid
  JSON and whose \<open>type\<close> is none of the eight \<open>case\<close> labels is logged and then ignored. No
  event is emitted (no \<open>unknown-error\<close> either), no state changes, and the handler resolves.
\<close>

theorem unhandled_type_is_ignored:
  "packet_type p \<notin> set handled_types \<Longrightarrow>
     handleSignalingMessage env (Json p) s =
       Done (s\<lparr>trace := trace s @ [Network_log [''signaling packet received:'', packet_type p]]\<rparr>)"
  by (cases p) (simp_all add: handled_types_def handleSignalingMessage_def log_def does_def)

theorem unhandled_type_is_ignored_witness:
  "packet_type (Hello ''game'' None) \<notin> set handled_types \<and>
   handleSignalingMessage quiet (Json (Hello ''game'' None)) fresh =
     Done (fresh\<lparr>trace := [New_WebSocket ''wss://signal'',
       Network_log [''signaling packet received:'', ''hello'']]\<rparr>)"
  using unhandled_type_is_ignored[of "Hello ''game'' None" quiet fresh]
  by (simp add: handled_types_def fresh_def constructor_def connect_def does_def)

text \<open>
  C7, as the claim has it, fails: the frame \<open>{"type":"bogus"}\<close> produces no
  \<open>unknown-error\<close> event, only the log line.
\<close>

theorem unhandled_type_counterexample:
  "packet_type (Unlisted ''bogus'') \<notin> set handled_types \<and>
   handleSignalingMessage quiet (Json (Unlisted ''bogus'')) fresh =
     Done (fresh\<lparr>trace := [New_WebSocket ''wss://signal'',
       Network_log [''signaling packet received:'', ''bogus'']]\<rparr>)"
  by (simp add: handled_types_def handleSignalingMessage_def log_def does_def fresh_def
      constructor_def connect_def)

section \<open>Errors nobody listens to\<close>

text \<open>
  C4 at a frame that is not JSON, with no listener for \<open>signalingerror\<close>: the \<open>catch\<close> block
  emits the \<open>unknown-error\<close> and prints nothing, where the \<open>'error'\<close> case (like
  \<open>onError\<close> and \<open>onClose\<close>) prints the error it emits with \<open>console.error\<close>.
\<close>

theorem unknown_error_is_not_printed:
  "listeners fresh = 0 \<and>
   trace (onMessage quiet Not_json fresh) =
     [New_WebSocket ''wss://signal'',
      Network_emit (Signalingerror (SignalingError Unknown_error (Caught SyntaxError)))] \<and>
   trace (onMessage quiet (Json (Error_packet ''full'')) fresh) =
     [New_WebSocket ''wss://signal'',
      Network_log [''signaling packet received:'', ''error''],
      Network_emit (Signalingerror (SignalingError Server_error (Text ''full''))),
      Console_error (SignalingError Server_error (Text ''full''))]"
  by (simp add: onMessage_def handleSignalingMessage_def emit_or_print_def emit_def log_def
      does_def fresh_def constructor_def connect_def)

section \<open>Peers and the replay queue\<close>

lemma deliver_others:
  "replayQueue (state_of (deliver env i p s)) = replayQueue s \<and>
   receivedID (state_of (deliver env i p s)) = receivedID s \<and>
   (j \<noteq> i \<longrightarrow> connections (state_of (deliver env i p s)) j = connections s j) \<and>
   ((connections (state_of (deliver env i p s)) i = None) = (connections s i = None))"
  by (simp add: deliver_def does_def Let_def split: option.splits)

lemma flush_others:
  "replayQueue (state_of (flush env i ps s)) = replayQueue s \<and>
   receivedID (state_of (flush env i ps s)) = receivedID s \<and>
   (j \<noteq> i \<longrightarrow> connections (state_of (flush env i ps s)) j = connections s j) \<and>
   ((connections (state_of (flush env i ps s)) i = None) = (connections s i = None))"
proof (induction ps arbitrary: s)
  case Nil
  then show ?case by simp
next
  case (Cons p ps)
  show ?case
  proof (cases "deliver env i p s")
    case (Done s')
    with Cons[of s'] deliver_others[where env=env and i=i and p=p and s=s] show ?thesis by simp
  next
    case (Threw e s')
    with deliver_others[where env=env and i=i and p=p and s=s] show ?thesis by simp
  qed
qed



lemma addPeer_others:
  "replayQueue (state_of (addPeer env i pol s)) = replayQueue s \<and>
   receivedID (state_of (addPeer env i pol s)) = receivedID s \<and>
   (j \<noteq> i \<longrightarrow> connections (state_of (addPeer env i pol s)) j = connections s j)"
  by (simp add: addPeer_def does_def Let_def split: option.splits)









subsection \<open>Never both buffered and registered\<close>







subsection \<open>Handlers that wait\<close>







subsection \<open>Frames about other peers\<close>

lemma seen_cong:
  "connections s' a = connections s a \<Longrightarrow> replayQueue s' a = replayQueue s a \<Longrightarrow> seen a s' = seen a s"
  by (simp add: seen_def)









subsection \<open>Before and after the connect packet\<close>



subsection \<open>Replay in arrival order\<close>




section \<open>The session's identifier\<close>

lemma dispatch_receivedID:
  assumes "receivedID s = Some r"
  shows "receivedID (state_of (dispatch env p s)) = Some r"
proof (cases p)
  case (Connect i pol)
  show ?thesis
  proof (cases "addPeer env i pol s")
    case (Done s1)
    with addPeer_others[where env=env and i=i and pol=pol and s=s] assms
    have r1: "receivedID s1 = Some r" by simp
    from flush_others[where env=env and i=i and ps="queued s1 i" and s=s1] r1
    have "receivedID (state_of (flush env i (queued s1 i) s1)) = Some r" by simp
    with Done Connect assms show ?thesis
      by (cases "flush env i (queued s1 i) s1") simp_all
  next
    case (Threw e s1)
    with addPeer_others[where env=env and i=i and pol=pol and s=s] assms Connect
    show ?thesis by simp
  qed
next
  case (Candidate source x)
  with deliver_others[where env=env and i=source and p=p and s=s] assms
  show ?thesis by (simp add: negotiation_def)
next
  case (Description source x)
  with deliver_others[where env=env and i=source and p=p and s=s] assms
  show ?thesis by (simp add: negotiation_def)
qed (use assms in \<open>simp_all add: emit_or_print_def emit_def log_def does_def close_peer_def
    Let_def split: option.splits\<close>)

lemma onMessage_receivedID:
  assumes "receivedID s = Some r"
  shows "receivedID (onMessage env fr s) = Some r"
proof -
  have "receivedID (state_of (try_block env fr s)) = Some r"
  proof (cases fr)
    case (Json p)
    from assms have "receivedID (log [''signaling packet received:'', packet_type p] s) = Some r"
      by (simp add: log_def does_def)
    from dispatch_receivedID[OF this] Json show ?thesis by simp
  qed (use assms in simp_all)
  then show ?thesis
    by (cases "try_block env fr s")
      (simp_all add: onMessage_def handleSignalingMessage_def emit_def does_def)
qed

lemma dispatch_all_receivedID:
  "receivedID s = Some r \<Longrightarrow> receivedID (dispatch_all env frs s) = Some r"
  by (induction frs arbitrary: s) (simp_all add: onMessage_receivedID)

lemma first_welcome:
  "receivedID s = None \<Longrightarrow>
     receivedID (onMessage env (Json (Welcome i)) s) = (if i = '''' then None else Some i)"
  by (simp add: onMessage_def handleSignalingMessage_def emit_def log_def does_def)

lemma welcomes_find:
  "receivedID s = None \<Longrightarrow>
     receivedID (dispatch_all env (map (\<lambda>i. Json (Welcome i)) ids) s) = find (\<lambda>i. i \<noteq> '''') ids"
proof (induction ids arbitrary: s)
  case Nil
  then show ?case by simp
next
  case (Cons i ids)
  show ?case
  proof (cases "i = ''''")
    case True
    with first_welcome[OF Cons.prems, of env i] Cons.IH show ?thesis by simp
  next
    case False
    with first_welcome[OF Cons.prems, of env i]
    have "receivedID (onMessage env (Json (Welcome i)) s) = Some i" by simp
    from dispatch_all_receivedID[OF this] False show ?thesis by simp
  qed
qed

text \<open>
  C3. While \<open>receivedID\<close> is unset, a \<open>welcome\<close> with a non-empty id records it, emits
  \<open>ready\<close> and starts the credential prefetch. Once it is set, a \<open>welcome\<close> with any id
  leaves it as it is and emits \<open>signalingreconnected\<close>; no frame of any kind changes it
  any more. So after any sequence of \<open>welcome\<close> packets the identifier is the first
  non-empty id of the sequence: it is assigned at most once.
\<close>

theorem identifier_is_assigned_once:
  "(receivedID s = None \<and> i \<noteq> '''' \<longrightarrow>
      handleSignalingMessage env (Json (Welcome i)) s =
        Done (s\<lparr>receivedID := Some i, trace := trace s @
          [Network_log [''signaling packet received:'', ''welcome''],
           Network_emit Ready, Prefetch_TURN_credentials]\<rparr>)) \<and>
   (receivedID s = Some r \<longrightarrow>
      handleSignalingMessage env (Json (Welcome j)) s =
        Done (s\<lparr>trace := trace s @
          [Network_log [''signaling packet received:'', ''welcome''],
           Network_log [''signaling reconnected''],
           Network_emit Signalingreconnected]\<rparr>)) \<and>
   (receivedID s = Some r \<longrightarrow> receivedID (dispatch_all env frs s) = Some r) \<and>
   (receivedID s = None \<longrightarrow>
      receivedID (dispatch_all env (map (\<lambda>i. Json (Welcome i)) ids) s) =
        find (\<lambda>i. i \<noteq> '''') ids)"
  by (simp add: dispatch_all_receivedID welcomes_find)
    (simp add: handleSignalingMessage_def emit_def log_def does_def)

theorem identifier_is_assigned_once_witness:
  "receivedID fresh = None \<and>
   handleSignalingMessage quiet (Json (Welcome ''p1'')) fresh =
     Done (fresh\<lparr>receivedID := Some ''p1'', trace :=
       [New_WebSocket ''wss://signal'',
        Network_log [''signaling packet received:'', ''welcome''],
        Network_emit Ready, Prefetch_TURN_credentials]\<rparr>) \<and>
   receivedID (dispatch_all quiet (map (\<lambda>i. Json (Welcome i)) ['''', ''p1'', ''p2'']) fresh) =
     Some ''p1'' \<and>
   receivedID (fresh\<lparr>receivedID := Some ''p1''\<rparr>) = Some ''p1'' \<and>
   handleSignalingMessage quiet (Json (Welcome ''p2'')) (fresh\<lparr>receivedID := Some ''p1''\<rparr>) =
     Done (fresh\<lparr>receivedID := Some ''p1'', trace :=
       [New_WebSocket ''wss://signal'',
        Network_log [''signaling packet received:'', ''welcome''],
        Network_log [''signaling reconnected''],
        Network_emit Signalingreconnected]\<rparr>) \<and>
   receivedID (dispatch_all quiet [Json (Joined ''L''), Json (Welcome ''p2'')]
     (fresh\<lparr>receivedID := Some ''p1''\<rparr>)) = Some ''p1''"
  using identifier_is_assigned_once[of fresh "''p1''" quiet "''p1''" "''p2''" "[]"
      "['''', ''p1'', ''p2'']"]
    identifier_is_assigned_once[of "fresh\<lparr>receivedID := Some ''p1''\<rparr>" "''p1''" quiet "''p1''"
      "''p2''" "[Json (Joined ''L''), Json (Welcome ''p2'')]" "[]"]
  by (simp add: fresh_def constructor_def connect_def does_def)

section \<open>Reconnection\<close>

subsection \<open>One call of reconnect\<close>

lemma reconnect_guarded: "reconnecting s \<or> closing s \<Longrightarrow> reconnect s = s"
  by (simp add: reconnect_def)

lemma reconnect_schedules:
  "\<not> reconnecting s \<Longrightarrow> \<not> closing s \<Longrightarrow> reconnectAttempt s \<le> 42 \<Longrightarrow>
     reconnect s = s\<lparr>reconnecting := True, reconnectAttempt := reconnectAttempt s + 1,
       timers := timers s @ [Event_timer ''signaling'' ''attempt-reconnect'' None,
                             Connect_timer (100 * reconnectAttempt s)]\<rparr>"
  by (simp add: reconnect_def event_def Let_def)

lemma reconnect_gives_up:
  "\<not> reconnecting s \<Longrightarrow> \<not> closing s \<Longrightarrow> 42 < reconnectAttempt s \<Longrightarrow>
     reconnect s = s\<lparr>trace := trace s @ [Network_emit Failed,
       Network_emit (Signalingerror (SignalingError Socket_error
         (Text ''giving up on reconnecting to signaling server'')))]\<rparr>"
  by (simp add: reconnect_def emit_def does_def)


lemma emit_or_print_lifecycle: "lifecycle (emit_or_print err s) = lifecycle s"
  by (simp add: lifecycle_def emit_or_print_def emit_def does_def Let_def)

lemma lifecycleD:
  assumes "lifecycle s' = lifecycle s"
  shows "ws s' = ws s" "listening s' = listening s" "reconnectAttempt s' = reconnectAttempt s"
    "reconnecting s' = reconnecting s" "closing s' = closing s" "timers s' = timers s"
    "pending_reconnects s' = pending_reconnects s" "url s' = url s" "gameID s' = gameID s"
  using assms by (simp_all add: lifecycle_def pending_reconnects_def)

text \<open>What one call of the lifecycle functions does to the fields the timers depend on.\<close>

lemma reconnect_fields:
  "ws (reconnect s) = ws s" "listening (reconnect s) = listening s"
  "closing (reconnect s) = closing s"
  "reconnecting (reconnect s) = (reconnecting s \<or> (\<not> closing s \<and> reconnectAttempt s \<le> 42))"
  "reconnectAttempt (reconnect s) =
     (if reconnecting s \<or> closing s \<or> 42 < reconnectAttempt s then reconnectAttempt s
      else reconnectAttempt s + 1)"
  "pending_reconnects (reconnect s) =
     (if reconnecting s \<or> closing s \<or> 42 < reconnectAttempt s then pending_reconnects s
      else pending_reconnects s + 1)"
  by (simp_all add: reconnect_def event_def emit_def does_def Let_def pending_reconnects_def)

lemma onError_fields:
  "ws (onError s) = ws s" "listening (onError s) = listening s" "closing (onError s) = closing s"
  "reconnecting (onError s) =
     (if ws s = CLOSED then \<not> closing s \<and> reconnectAttempt s \<le> 42 else reconnecting s)"
  "reconnectAttempt (onError s) =
     (if ws s = CLOSED \<and> \<not> closing s \<and> reconnectAttempt s \<le> 42 then reconnectAttempt s + 1
      else reconnectAttempt s)"
  "pending_reconnects (onError s) =
     (if ws s = CLOSED \<and> \<not> closing s \<and> reconnectAttempt s \<le> 42 then pending_reconnects s + 1
      else pending_reconnects s)"
proof -
  let ?s1 = "emit_or_print (SignalingError Socket_error (Text ''unexpected websocket error'')) s"
  note l = lifecycleD[OF emit_or_print_lifecycle[of "SignalingError Socket_error (Text ''unexpected websocket error'')" s]]
  have e: "onError s = (if ws s = CLOSED then reconnect (?s1\<lparr>reconnecting := False\<rparr>) else ?s1)"
    using l(1) by (simp add: onError_def Let_def)
  have p: "pending_reconnects (?s1\<lparr>reconnecting := False\<rparr>) = pending_reconnects s"
    using l(6) by (simp add: pending_reconnects_def)
  show "ws (onError s) = ws s" "listening (onError s) = listening s"
    "closing (onError s) = closing s"
    "reconnecting (onError s) =
       (if ws s = CLOSED then \<not> closing s \<and> reconnectAttempt s \<le> 42 else reconnecting s)"
    "reconnectAttempt (onError s) =
       (if ws s = CLOSED \<and> \<not> closing s \<and> reconnectAttempt s \<le> 42 then reconnectAttempt s + 1
        else reconnectAttempt s)"
    "pending_reconnects (onError s) =
       (if ws s = CLOSED \<and> \<not> closing s \<and> reconnectAttempt s \<le> 42 then pending_reconnects s + 1
        else pending_reconnects s)"
    using l p by (simp_all add: e reconnect_fields)
qed

lemma onClose_fields:
  "ws (onClose s) = ws s" "listening (onClose s) = False" "closing (onClose s) = closing s"
  "reconnecting (onClose s) = (reconnecting s \<or> (\<not> closing s \<and> reconnectAttempt s \<le> 42))"
  "reconnectAttempt (onClose s) =
     (if reconnecting s \<or> closing s \<or> 42 < reconnectAttempt s then reconnectAttempt s
      else reconnectAttempt s + 1)"
  "pending_reconnects (onClose s) =
     (if reconnecting s \<or> closing s \<or> 42 < reconnectAttempt s then pending_reconnects s
      else pending_reconnects s + 1)"
proof -
  have "\<exists>s1. lifecycle s1 = lifecycle s \<and> onClose s = reconnect (s1\<lparr>listening := False\<rparr>)"
  proof (cases "closing s")
    case True
    then have "onClose s = reconnect (s\<lparr>listening := False\<rparr>)"
      by (simp add: onClose_def Let_def)
    then show ?thesis by blast
  next
    case False
    then have "onClose s = reconnect
        ((emit_or_print (SignalingError Socket_error (Text ''signaling socket closed'')) s)
           \<lparr>listening := False\<rparr>)"
      by (simp add: onClose_def Let_def)
    with emit_or_print_lifecycle show ?thesis by blast
  qed
  then obtain s1 where s1: "lifecycle s1 = lifecycle s"
    and e: "onClose s = reconnect (s1\<lparr>listening := False\<rparr>)" by blast
  note l = lifecycleD[OF s1]
  have p: "pending_reconnects (s1\<lparr>listening := False\<rparr>) = pending_reconnects s"
    using l(6) by (simp add: pending_reconnects_def)
  show "ws (onClose s) = ws s" "listening (onClose s) = False" "closing (onClose s) = closing s"
    "reconnecting (onClose s) = (reconnecting s \<or> (\<not> closing s \<and> reconnectAttempt s \<le> 42))"
    "reconnectAttempt (onClose s) =
       (if reconnecting s \<or> closing s \<or> 42 < reconnectAttempt s then reconnectAttempt s
        else reconnectAttempt s + 1)"
    "pending_reconnects (onClose s) =
       (if reconnecting s \<or> closing s \<or> 42 < reconnectAttempt s then pending_reconnects s
        else pending_reconnects s + 1)"
    using l p by (simp_all add: e reconnect_fields)
qed

subsection \<open>Pending timers\<close>

lemma filter_without_nth:
  assumes "k < length ts"
  shows "length (filter P (take k ts @ drop (Suc k) ts)) =
           length (filter P ts) - (if P (ts ! k) then 1 else 0)"
proof -
  from assms have "ts = take k ts @ ts ! k # drop (Suc k) ts"
    by (rule id_take_nth_drop)
  then have "length (filter P ts) =
      length (filter P (take k ts @ ts ! k # drop (Suc k) ts))" by simp
  then show ?thesis by simp
qed

lemma fire_pending:
  "k < length (timers s) \<Longrightarrow>
     fire k s =
       (case timers s ! k of
          Connect_timer d \<Rightarrow> connect (s\<lparr>timers := take k (timers s) @ drop (Suc k) (timers s)\<rparr>)
        | Event_timer category action data \<Rightarrow>
            event_fires category action data
              (s\<lparr>timers := take k (timers s) @ drop (Suc k) (timers s)\<rparr>))"
  by (simp add: fire_def Let_def)

lemma connect_fields:
  "timers (connect s) = timers s" "reconnectAttempt (connect s) = reconnectAttempt s"
  "listening (connect s)"
  by (simp_all add: connect_def does_def)

lemma event_fires_fields:
  "timers (event_fires category action data s) = timers s"
  "reconnectAttempt (event_fires category action data s) = reconnectAttempt s"
  "listening (event_fires category action data s) = listening s"
  by (simp_all add: event_fires_def send_def log_def does_def)

lemma pending_after_fire:
  assumes "k < length (timers s)"
  shows "pending_reconnects (fire k s) =
           pending_reconnects s - (if is_connect_timer (timers s ! k) then 1 else 0)"
    and "reconnectAttempt (fire k s) = reconnectAttempt s"
    and "is_connect_timer (timers s ! k) \<Longrightarrow> listening (fire k s)"
    and "\<not> is_connect_timer (timers s ! k) \<Longrightarrow> listening (fire k s) = listening s"
proof -
  note f = filter_without_nth[OF assms, of is_connect_timer]
  note p = fire_pending[OF assms]
  show "pending_reconnects (fire k s) =
      pending_reconnects s - (if is_connect_timer (timers s ! k) then 1 else 0)"
    using f by (cases "timers s ! k")
      (simp_all add: p pending_reconnects_def connect_fields event_fires_fields)
  show "reconnectAttempt (fire k s) = reconnectAttempt s"
    by (cases "timers s ! k") (simp_all add: p connect_fields event_fires_fields)
  show "listening (fire k s)" if "is_connect_timer (timers s ! k)"
    using that by (cases "timers s ! k") (simp_all add: p connect_fields)
  show "listening (fire k s) = listening s" if "\<not> is_connect_timer (timers s ! k)"
    using that by (cases "timers s ! k") (simp_all add: p event_fires_fields)
qed

subsection \<open>At most one pending reconnect\<close>

lemma settled_constructor: "settled (constructor game nid cl ls peers u)"
  by (simp add: settled_def constructor_def connect_def does_def pending_reconnects_def)

lemma settled_step:
  assumes "enabled s h" "settled s"
  shows "settled (step env h s)"
proof (cases h)
  case On_open
  with assms show ?thesis
    by (simp add: settled_def onOpen_def send_def log_def does_def pending_reconnects_def)
next
  case On_error
  with assms show ?thesis
    by (simp add: settled_def onError_fields)
next
  case On_failure
  have "pending_reconnects (s\<lparr>ws := CLOSED\<rparr>) = pending_reconnects s"
    by (simp add: pending_reconnects_def)
  with On_failure assms show ?thesis
    by (simp add: settled_def onClose_fields onError_fields)
next
  case On_close
  have "pending_reconnects (s\<lparr>ws := CLOSED\<rparr>) = pending_reconnects s"
    by (simp add: pending_reconnects_def)
  with On_close assms show ?thesis
    by (simp add: settled_def onClose_fields)
next
  case (On_message fr)
  with assms lifecycleD[OF onMessage_lifecycle[of env fr s]] show ?thesis
    by (simp add: settled_def)
next
  case (Timeout k)
  with assms have k: "k < length (timers s)" by simp
  show ?thesis
  proof (cases "is_connect_timer (timers s ! k)")
    case True
    with pending_after_fire[OF k] assms(2) Timeout show ?thesis
      by (simp add: settled_def)
  next
    case False
    with pending_after_fire[OF k] assms(2) Timeout show ?thesis
      by (simp add: settled_def)
  qed
next
  case App_close
  with assms show ?thesis
    by (simp add: settled_def close_def does_def pending_reconnects_def)
next
  case App_closing
  with assms show ?thesis by (simp add: settled_def pending_reconnects_def)
next
  case App_listens
  with assms show ?thesis by (simp add: settled_def pending_reconnects_def)
qed

lemma settled_run: "run env hs s = Some s' \<Longrightarrow> settled s \<Longrightarrow> settled s'"
proof (induction hs arbitrary: s)
  case Nil
  then show ?case by simp
next
  case (Cons h hs)
  from Cons.prems(1) have en: "enabled s h" and r: "run env hs (step env h s) = Some s'"
    by (simp_all split: if_splits)
  from Cons.IH[OF r settled_step[OF en Cons.prems(2)]] show ?case .
qed


subsection \<open>From a failure to the next hello\<close>

lemma emit_or_print_printed: "emit_or_print err s = s\<lparr>trace := trace s @ printed s err\<rparr>"
  by (simp add: emit_or_print_def emit_def does_def printed_def Let_def)

lemma failure_schedules:
  assumes "\<not> closing s" "reconnectAttempt s \<le> 42"
  shows "onClose (onError (s\<lparr>ws := CLOSED\<rparr>)) =
     s\<lparr>ws := CLOSED, listening := False, reconnecting := True,
       reconnectAttempt := reconnectAttempt s + 1,
       timers := timers s @ [Event_timer ''signaling'' ''attempt-reconnect'' None,
                             Connect_timer (100 * reconnectAttempt s)],
       trace := trace s @
         printed s (SignalingError Socket_error (Text ''unexpected websocket error'')) @
         printed s (SignalingError Socket_error (Text ''signaling socket closed''))\<rparr>"
proof -
  let ?e = "SignalingError Socket_error (Text ''unexpected websocket error'')"
  let ?s1 = "s\<lparr>ws := CLOSED, trace := trace s @ printed s ?e\<rparr>"
  have p: "printed (s\<lparr>ws := CLOSED\<rparr>) ?e = printed s ?e" by (simp add: printed_def)
  have "onError (s\<lparr>ws := CLOSED\<rparr>) = reconnect (?s1\<lparr>reconnecting := False\<rparr>)"
    by (simp add: onError_def emit_or_print_printed p Let_def)
  also have "\<dots> = ?s1\<lparr>reconnecting := True, reconnectAttempt := reconnectAttempt s + 1,
       timers := timers s @ [Event_timer ''signaling'' ''attempt-reconnect'' None,
                             Connect_timer (100 * reconnectAttempt s)]\<rparr>"
    using assms by (simp add: reconnect_schedules)
  finally have e: "onError (s\<lparr>ws := CLOSED\<rparr>) =
      ?s1\<lparr>reconnecting := True, reconnectAttempt := reconnectAttempt s + 1,
       timers := timers s @ [Event_timer ''signaling'' ''attempt-reconnect'' None,
                             Connect_timer (100 * reconnectAttempt s)]\<rparr>" .
  show ?thesis
    using assms
    by (simp add: e onClose_def emit_or_print_printed Let_def reconnect_guarded)
      (simp add: printed_def)
qed



subsection \<open>Failure after failure\<close>

lemma failed_count_printed [simp]:
  "count_list (printed s (SignalingError Socket_error m)) (Network_emit Failed) = 0"
  by (simp add: printed_def)

lemma one_more_failure:
  assumes "about_to_fail s" "reconnectAttempt s \<le> 42"
  shows "\<exists>s'. run env (On_failure # Timeout 0 # Timeout 0 # hs) s = run env hs s' \<and>
           about_to_fail s' \<and> reconnectAttempt s' = reconnectAttempt s + 1"
proof -
  from assms have c: "\<not> closing s" and en: "enabled s On_failure" and t: "timers s = []"
    and f: "failed_count s = 0"
    by (simp_all add: about_to_fail_def)
  let ?tr = "trace s @
      printed s (SignalingError Socket_error (Text ''unexpected websocket error'')) @
      printed s (SignalingError Socket_error (Text ''signaling socket closed''))"
  let ?s1 = "s\<lparr>ws := CLOSED, listening := False, reconnecting := True,
      reconnectAttempt := reconnectAttempt s + 1,
      timers := [Event_timer ''signaling'' ''attempt-reconnect'' None,
                 Connect_timer (100 * reconnectAttempt s)],
      trace := ?tr\<rparr>"
  let ?s2 = "?s1\<lparr>timers := [Connect_timer (100 * reconnectAttempt s)]\<rparr>"
  let ?s3 = "?s2\<lparr>timers := [], trace := ?tr @ [New_WebSocket (url s)],
      ws := CONNECTING, listening := True\<rparr>"
  have "run env (On_failure # Timeout 0 # Timeout 0 # hs) s =
      run env (Timeout 0 # Timeout 0 # hs) ?s1"
    using en by (simp add: failure_schedules[OF c assms(2)] t)
  also have "\<dots> = run env (Timeout 0 # hs) ?s2"
    by (simp add: fire_def event_fires_def send_def)
  also have "\<dots> = run env hs ?s3"
    by (simp add: fire_def connect_def does_def)
  finally have r: "run env (On_failure # Timeout 0 # Timeout 0 # hs) s = run env hs ?s3" .
  have "about_to_fail ?s3"
    using c f by (simp add: about_to_fail_def failed_count_def)
  moreover have "reconnectAttempt ?s3 = reconnectAttempt s + 1"
    by simp
  ultimately show ?thesis using r by blast
qed

lemma failures_in_a_row:
  "about_to_fail s \<Longrightarrow> reconnectAttempt s + n \<le> 43 \<Longrightarrow>
     \<exists>s'. run env (failures n @ hs) s = run env hs s' \<and> about_to_fail s' \<and>
       reconnectAttempt s' = reconnectAttempt s + n"
proof (induction n arbitrary: s)
  case 0
  then show ?case by auto
next
  case (Suc n)
  from Suc.prems have le: "reconnectAttempt s \<le> 42" by simp
  from one_more_failure[OF Suc.prems(1) le, of env "failures n @ hs"]
  obtain s1 where s1: "run env (failures (Suc n) @ hs) s = run env (failures n @ hs) s1"
    "about_to_fail s1" "reconnectAttempt s1 = reconnectAttempt s + 1" by auto
  from Suc.prems(2) s1(3) have "reconnectAttempt s1 + n \<le> 43" by simp
  from Suc.IH[OF s1(2) this] s1 show ?case by auto
qed

lemma failure_above_the_ceiling:
  assumes "about_to_fail s" "42 < reconnectAttempt s"
  shows "map_option failed_count (run env [On_failure] s) = Some 2"
proof -
  let ?e = "SignalingError Socket_error (Text ''unexpected websocket error'')"
  let ?g = "[Network_emit Failed, Network_emit (Signalingerror (SignalingError Socket_error
         (Text ''giving up on reconnecting to signaling server'')))]"
  from assms have c: "\<not> closing s" and en: "enabled s On_failure"
    and f: "count_list (trace s) (Network_emit Failed) = 0"
    by (simp_all add: about_to_fail_def failed_count_def)
  let ?s1 = "s\<lparr>ws := CLOSED, reconnecting := False, trace := trace s @ printed s ?e @ ?g\<rparr>"
  have p: "printed (s\<lparr>ws := CLOSED\<rparr>) ?e = printed s ?e" by (simp add: printed_def)
  have e: "onError (s\<lparr>ws := CLOSED\<rparr>) = ?s1"
    using c assms(2)
    by (simp add: onError_def emit_or_print_printed p Let_def reconnect_gives_up)
  have "failed_count (onClose ?s1) = 2"
    using c assms(2) f
    by (simp add: onClose_def emit_or_print_printed Let_def reconnect_gives_up failed_count_def
        printed_def)
  with en e show ?thesis by simp
qed

subsection \<open>The claims on reconnection\<close>

text \<open>
  C9. A call of \<open>reconnect\<close> while the \<open>reconnecting\<close> flag is set, or while the network is
  closing, returns the state it was given: no event, no timer, no change of the counter.
  A call that schedules sets the flag, adds one to the counter and adds its two timers.
  And in every run from the constructor in which the socket's events reach attached
  listeners only, at most one reconnect is pending at any time.
\<close>

theorem at_most_one_pending_reconnect:
  "(reconnecting s \<or> closing s \<longrightarrow> reconnect s = s) \<and>
   (\<not> reconnecting s \<and> \<not> closing s \<and> reconnectAttempt s \<le> 42 \<longrightarrow>
      reconnect s = s\<lparr>reconnecting := True, reconnectAttempt := reconnectAttempt s + 1,
        timers := timers s @ [Event_timer ''signaling'' ''attempt-reconnect'' None,
                              Connect_timer (100 * reconnectAttempt s)]\<rparr>) \<and>
   (run env hs (constructor game nid cl ls peers u) = Some t \<longrightarrow> pending_reconnects t \<le> 1)"
proof -
  have "pending_reconnects t \<le> 1" if "run env hs (constructor game nid cl ls peers u) = Some t"
    using settled_run[OF that settled_constructor] by (simp add: settled_def)
  then show ?thesis
    by (simp add: reconnect_guarded reconnect_schedules)
qed

theorem at_most_one_pending_reconnect_witness:
  "reconnecting (fresh\<lparr>reconnecting := True\<rparr>) \<and>
   reconnect (fresh\<lparr>reconnecting := True\<rparr>) = fresh\<lparr>reconnecting := True\<rparr> \<and>
   \<not> reconnecting fresh \<and> \<not> closing fresh \<and> reconnectAttempt fresh \<le> 42 \<and>
   reconnect fresh = fresh\<lparr>reconnecting := True, reconnectAttempt := 1,
     timers := [Event_timer ''signaling'' ''attempt-reconnect'' None, Connect_timer 0]\<rparr> \<and>
   run quiet [On_failure, Timeout 0] fresh = Some (step quiet (Timeout 0) (step quiet On_failure fresh)) \<and>
   pending_reconnects (step quiet (Timeout 0) (step quiet On_failure fresh)) \<le> 1"
proof -
  have f: "\<not> reconnecting fresh" "\<not> closing fresh" "reconnectAttempt fresh = 0"
    "timers fresh = []" "enabled fresh On_failure"
    by (simp_all add: fresh_def constructor_def connect_def does_def)
  have r: "run quiet [On_failure, Timeout 0] fresh =
      Some (step quiet (Timeout 0) (step quiet On_failure fresh))"
    using f by (simp add: failure_schedules)
  from at_most_one_pending_reconnect[of "fresh\<lparr>reconnecting := True\<rparr>"]
  have a: "reconnect (fresh\<lparr>reconnecting := True\<rparr>) = fresh\<lparr>reconnecting := True\<rparr>" by simp
  from at_most_one_pending_reconnect[of fresh] f
  have b: "reconnect fresh = fresh\<lparr>reconnecting := True, reconnectAttempt := 1,
     timers := [Event_timer ''signaling'' ''attempt-reconnect'' None, Connect_timer 0]\<rparr>"
    by simp
  from at_most_one_pending_reconnect[of _ quiet "[On_failure, Timeout 0]" "''game''" "''me''"
      False 0 Map.empty "''wss://signal''" "step quiet (Timeout 0) (step quiet On_failure fresh)"] r
  have c: "pending_reconnects (step quiet (Timeout 0) (step quiet On_failure fresh)) \<le> 1"
    by (simp add: fresh_def)
  from f a b r c show ?thesis by simp
qed

text \<open>
  C2 on 44 connections that fail one after the other, from the constructor. Each of the
  first 43 failures schedules one reconnect, although it calls \<open>reconnect\<close> twice, from
  \<open>onError\<close> and from \<open>onClose\<close>: the first call sets the \<open>reconnecting\<close> flag and the second
  returns at the guard. After them the counter is 43 and \<open>failed\<close> has not been emitted.
  The 44th failure calls \<open>reconnect\<close> twice again, but the branch above the ceiling sets
  no flag, so both calls pass the guard and \<open>failed\<close> is emitted twice. And below the
  ceiling a \<open>close\<close> event that reaches the session before the socket of a reconnect has
  opened finds the flag still set: nothing is scheduled, no listener is left, and the
  session never connects again.
\<close>

theorem failed_is_emitted_twice:
  "map_option failed_count (run quiet (failures 43 @ [On_failure]) fresh) = Some 2 \<and>
   map_option failed_count (run quiet (failures 43) fresh) = Some 0 \<and>
   map_option reconnectAttempt (run quiet (failures 43) fresh) = Some 43 \<and>
   map_option pending_reconnects (run quiet [On_failure] fresh) = Some 1 \<and>
   map_option timers (run quiet [On_close, Timeout 0, Timeout 0, On_close] fresh) = Some [] \<and>
   map_option reconnecting (run quiet [On_close, Timeout 0, Timeout 0, On_close] fresh) = Some True \<and>
   map_option listening (run quiet [On_close, Timeout 0, Timeout 0, On_close] fresh) = Some False \<and>
   map_option reconnectAttempt (run quiet [On_close, Timeout 0, Timeout 0, On_close] fresh) = Some 1"
proof -
  have a: "about_to_fail fresh" "reconnectAttempt fresh = 0"
    by (simp_all add: about_to_fail_def failed_count_def fresh_def constructor_def connect_def
        does_def)
  then have le: "reconnectAttempt fresh + 43 \<le> 43" by simp
  from failures_in_a_row[OF a(1) le, of quiet "[On_failure]"] a(2)
  obtain s' where s': "run quiet (failures 43 @ [On_failure]) fresh = run quiet [On_failure] s'"
    "about_to_fail s'" "reconnectAttempt s' = 43" by auto
  from failure_above_the_ceiling[OF s'(2), of quiet] s'(1,3)
  have twice: "map_option failed_count (run quiet (failures 43 @ [On_failure]) fresh) = Some 2"
    by simp
  from failures_in_a_row[OF a(1) le, of quiet "[]"] a(2)
  obtain t where t: "run quiet (failures 43) fresh = Some t" "about_to_fail t"
    "reconnectAttempt t = 43" by auto
  then have before: "map_option failed_count (run quiet (failures 43) fresh) = Some 0"
    "map_option reconnectAttempt (run quiet (failures 43) fresh) = Some 43"
    by (simp_all add: about_to_fail_def)
  have f: "\<not> closing fresh" "reconnectAttempt fresh \<le> 42" "enabled fresh On_failure"
    "timers fresh = []"
    by (simp_all add: fresh_def constructor_def connect_def does_def)
  have once: "map_option pending_reconnects (run quiet [On_failure] fresh) = Some 1"
    using f by (simp add: failure_schedules pending_reconnects_def)
  have stuck: "run quiet [On_close, Timeout 0, Timeout 0, On_close] fresh =
      Some (fresh\<lparr>ws := CLOSED, listening := False, reconnecting := True, reconnectAttempt := 1,
        timers := [],
        trace := [New_WebSocket ''wss://signal'',
          Network_emit (Signalingerror (SignalingError Socket_error (Text ''signaling socket closed''))),
          Console_error (SignalingError Socket_error (Text ''signaling socket closed'')),
          New_WebSocket ''wss://signal'',
          Network_emit (Signalingerror (SignalingError Socket_error (Text ''signaling socket closed''))),
          Console_error (SignalingError Socket_error (Text ''signaling socket closed''))]\<rparr>)"
    by (simp add: fresh_def constructor_def connect_def onClose_def reconnect_def event_def
        event_fires_def send_def fire_def emit_or_print_def emit_def does_def Let_def)
  show ?thesis
    unfolding stuck using twice before once by simp
qed

end
